theory Spec2Isabelle
  imports Complex_Main "HOL-Library.Sublist"
begin

section \<open>Numbers\<close>

text \<open>
  The program computes in C++ \<open>float\<close>. The model keeps the structure of IEEE arithmetic
  that the control flow of the program depends on and leaves rounding out:
  \<^item> a vertex coordinate is a finite number, a \<^typ>\<open>rat\<close>: the model is of shapes whose
    coordinates are finite, as the numbers are that \<open>std::cin >> point\<close> reads into \<open>mPoints\<close>;
  \<^item> a value computed by \<open>FindIntersection\<close> is an \<open>fl\<close>: a finite number, an infinity or
    NaN, since the solver divides by a difference of slopes that may be zero;
  \<^item> arithmetic on finite values is exact (no rounding, no overflow), and there is one
    zero: the zero divisors that the solver can produce are differences \<open>s - s\<close>, which are
    \<open>+0\<close> in IEEE arithmetic, so a division by zero takes the sign of its numerator.
  Counters that the source keeps in a \<open>float\<close> or an \<open>unsigned int\<close> (\<open>sum_B\<close>, \<open>adj_ct\<close>,
  \<open>contain_ct\<close>, \<open>mNumSides\<close>) are \<^typ>\<open>int\<close> and \<^typ>\<open>nat\<close>: they count vertices and edges of
  one polygon and stay far below \<open>2^24\<close>, where both types are exact.

  Since the rounding of \<open>float\<close> is left out, the values of dot products, slopes and
  intersection points are those of the program only where its operations are exact. The
  general statements of the claims are about the control flow and hold for whatever
  values the arithmetic gives: they rest on no property of a dot product, a slope or a
  solved point. Every concrete input below has coordinates, differences, products and
  quotients that are numbers of the single format, so that the program computes the same
  values on it.
\<close>

datatype fl = Fin rat | PInf | NInf | NaN

fun f_neg :: "fl \<Rightarrow> fl" where
  "f_neg (Fin a) = Fin (- a)"
| "f_neg PInf = NInf"
| "f_neg NInf = PInf"
| "f_neg NaN = NaN"

fun f_add :: "fl \<Rightarrow> fl \<Rightarrow> fl" where
  "f_add (Fin a) (Fin b) = Fin (a + b)"
| "f_add NaN _ = NaN"
| "f_add _ NaN = NaN"
| "f_add PInf NInf = NaN"
| "f_add NInf PInf = NaN"
| "f_add PInf _ = PInf"
| "f_add _ PInf = PInf"
| "f_add NInf _ = NInf"
| "f_add _ NInf = NInf"

definition f_sub :: "fl \<Rightarrow> fl \<Rightarrow> fl" where
  "f_sub a b = f_add a (f_neg b)"

text \<open>The sign of an infinity times or over a finite factor: \<open>pos\<close> keeps it.\<close>

fun f_signed :: "bool \<Rightarrow> fl \<Rightarrow> fl" where
  "f_signed pos PInf = (if pos then PInf else NInf)"
| "f_signed pos NInf = (if pos then NInf else PInf)"
| "f_signed pos v = v"

fun f_mul :: "fl \<Rightarrow> fl \<Rightarrow> fl" where
  "f_mul (Fin a) (Fin b) = Fin (a * b)"
| "f_mul NaN _ = NaN"
| "f_mul _ NaN = NaN"
| "f_mul (Fin a) v = (if a = 0 then NaN else f_signed (0 < a) v)"
| "f_mul v (Fin b) = (if b = 0 then NaN else f_signed (0 < b) v)"
| "f_mul PInf v = v"
| "f_mul NInf v = f_neg v"

fun f_div :: "fl \<Rightarrow> fl \<Rightarrow> fl" where
  "f_div (Fin a) (Fin b) =
     (if b = 0 then (if a = 0 then NaN else if 0 < a then PInf else NInf)
      else Fin (a / b))"
| "f_div NaN _ = NaN"
| "f_div _ NaN = NaN"
| "f_div (Fin a) _ = Fin 0"
| "f_div v (Fin b) = f_signed (0 \<le> b) v"
| "f_div _ _ = NaN"

text \<open>The comparisons \<open>==\<close> and \<open><=\<close>: every comparison with NaN is false.\<close>

fun f_eq :: "fl \<Rightarrow> fl \<Rightarrow> bool" where
  "f_eq (Fin a) (Fin b) = (a = b)"
| "f_eq PInf PInf = True"
| "f_eq NInf NInf = True"
| "f_eq _ _ = False"

fun f_le :: "fl \<Rightarrow> fl \<Rightarrow> bool" where
  "f_le (Fin a) (Fin b) = (a \<le> b)"
| "f_le NaN _ = False"
| "f_le _ NaN = False"
| "f_le NInf _ = True"
| "f_le _ PInf = True"
| "f_le _ _ = False"

text \<open>
  The sentinel \<open>#define INV 0xdeadbeef\<close>. Every use of it in the program assigns it to a
  \<open>float\<close> or compares it with one, which converts the \<open>unsigned int\<close> 3735928559 to the
  nearest \<open>float\<close>, 3735928576 (\<open>0xdeadbf00\<close>).
\<close>

definition INV :: rat where
  "INV = 3735928576"

section \<open>Shapes\<close>

datatype CollisionType = adj | contain | apart | none

text \<open>
  \<open>class Shape\<close>. \<open>mPoints\<close> holds \<open>2 * mNumSides\<close> coordinates, \<open>x\<close> before \<open>y\<close>. The entries
  of \<open>mIsectEdge\<close> are the loop counters that \<open>Analyze\<close> pushes, hence natural numbers.
\<close>

record Shape =
  mNumSides :: nat
  mIsectEdge :: "nat list"
  mPoints :: "rat list"
  mName :: string

text \<open>
  A shape as its constructor leaves it and \<open>Analyze\<close> keeps it: the array has its
  \<open>2 * mNumSides\<close> entries and every candidate edge is an edge of the shape. All reads of
  \<open>mPoints\<close> below are then in range.
\<close>

definition wf_shape :: "Shape \<Rightarrow> bool" where
  "wf_shape S \<longleftrightarrow>
     length (mPoints S) = 2 * mNumSides S \<and> list_all (\<lambda>e. e < mNumSides S) (mIsectEdge S)"

text \<open>
  The end points \<open>(x1, y1, x2, y2)\<close> of the edge that starts at vertex \<open>index\<close>; the source
  repeats these four reads in \<open>LiesOnEdge\<close>, \<open>Analyze\<close> and \<open>FindIntersection\<close>.
\<close>

definition edge_points :: "Shape \<Rightarrow> nat \<Rightarrow> rat \<times> rat \<times> rat \<times> rat" where
  "edge_points S index =
     (mPoints S ! (2 * index),
      mPoints S ! (2 * index + 1),
      mPoints S ! ((2 * index + 2) mod (2 * mNumSides S)),
      mPoints S ! ((2 * index + 3) mod (2 * mNumSides S)))"

definition LiesOnEdge :: "Shape \<Rightarrow> fl \<Rightarrow> fl \<Rightarrow> nat \<Rightarrow> bool" where
  "LiesOnEdge S x y index =
     (case edge_points S index of (x1, y1, x2, y2) \<Rightarrow>
        ((f_le (Fin x1) x \<and> f_le x (Fin x2)) \<or> (f_le (Fin x2) x \<and> f_le x (Fin x1))) \<and>
        ((f_le (Fin y1) y \<and> f_le y (Fin y2)) \<or> (f_le (Fin y2) y \<and> f_le y (Fin y1))))"

section \<open>Analyze\<close>

text \<open>The dot product of a vertex with the rotated edge, relative to the edge's start.\<close>

definition dotprod :: "rat \<times> rat \<times> rat \<times> rat \<Rightarrow> rat \<Rightarrow> rat \<Rightarrow> rat" where
  "dotprod e x y =
     (case e of (x1, y1, x2, y2) \<Rightarrow> (y2 - y1) * (x - x1) + (x1 - x2) * (y - y1))"

text \<open>The first inner loop: the sum of the dot products of the subject's own vertices.\<close>

fun sum_A_loop :: "Shape \<Rightarrow> rat \<times> rat \<times> rat \<times> rat \<Rightarrow> nat list \<Rightarrow> rat \<Rightarrow> rat" where
  "sum_A_loop A e [] s = s"
| "sum_A_loop A e (j # js) s =
     sum_A_loop A e js (s + dotprod e (mPoints A ! (2 * j)) (mPoints A ! (2 * j + 1)))"

text \<open>\<open>sum_A = sum_A > 0 ? 1 : -1\<close>: the side of edge \<open>i\<close> on which the subject lies.\<close>

definition sum_A :: "Shape \<Rightarrow> nat \<Rightarrow> int" where
  "sum_A A i =
     (if 0 < sum_A_loop A (edge_points A i) [0..<mNumSides A] 0 then 1 else - 1)"

text \<open>
  The second inner loop, over the vertices of the other shape: it returns \<open>(sum_B, adj_ct)\<close>.
\<close>

fun sum_B_loop :: "Shape \<Rightarrow> Shape \<Rightarrow> nat \<Rightarrow> nat list \<Rightarrow> int \<times> nat \<Rightarrow> int \<times> nat" where
  "sum_B_loop A B i [] acc = acc"
| "sum_B_loop A B i (j # js) (sB, ac) =
     (let x = mPoints B ! (2 * j);
          y = mPoints B ! (2 * j + 1);
          d = dotprod (edge_points A i) x y
      in if d \<noteq> 0 then sum_B_loop A B i js (if 0 < d then sB + 1 else sB - 1, ac)
         else if LiesOnEdge A (Fin x) (Fin y) i then sum_B_loop A B i js (sB, ac + 1)
         else sum_B_loop A B i js (sB, ac))"

definition sum_B :: "Shape \<Rightarrow> Shape \<Rightarrow> nat \<Rightarrow> int" where
  "sum_B A B i = fst (sum_B_loop A B i [0..<mNumSides B] (0, 0))"

definition adj_ct :: "Shape \<Rightarrow> Shape \<Rightarrow> nat \<Rightarrow> nat" where
  "adj_ct A B i = snd (sum_B_loop A B i [0..<mNumSides B] (0, 0))"

text \<open>\<open>sum_temp = sum_B > 0 ? 1 : -1\<close>: the sign of \<open>sum_B\<close>, with \<open>-1\<close> for zero.\<close>

definition sum_temp :: "Shape \<Rightarrow> Shape \<Rightarrow> nat \<Rightarrow> int" where
  "sum_temp A B i = (if 0 < sum_B A B i then 1 else - 1)"

text \<open>\<open>A.mIsectEdge.push_back (i)\<close>.\<close>

definition push_back :: "Shape \<Rightarrow> nat \<Rightarrow> Shape" where
  "push_back A i = A\<lparr>mIsectEdge := mIsectEdge A @ [i]\<rparr>"

text \<open>
  The loop over the edges of the subject, with the containment counter, and the two
  returns after it. The subject is returned with its candidate edges.
\<close>

fun Analyze_loop :: "Shape \<Rightarrow> Shape \<Rightarrow> nat list \<Rightarrow> nat \<Rightarrow> CollisionType \<times> Shape" where
  "Analyze_loop A B [] contain_ct =
     (if contain_ct = mNumSides B then (contain, A) else (none, A))"
| "Analyze_loop A B (i # is) contain_ct =
     (if sum_B A B i = - sum_A A i * int (mNumSides B) then (apart, A)
      else if adj_ct A B i = 2 then
        (if sum_temp A B i = - sum_A A i then (adj, A)
         else Analyze_loop (push_back A i) B is contain_ct)
      else if sum_B A B i = sum_A A i * int (mNumSides B) then
        Analyze_loop A B is (contain_ct + 1)
      else Analyze_loop (push_back A i) B is contain_ct)"

definition Analyze :: "Shape \<Rightarrow> Shape \<Rightarrow> CollisionType \<times> Shape" where
  "Analyze A B = Analyze_loop A B [0..<mNumSides A] 0"

text \<open>
  Vocabulary for the iterations of the loop. The iteration for edge \<open>i\<close> returns (apart
  or adjacent) under \<open>returns_at\<close>; if it does not return, it pushes \<open>i\<close> under
  \<open>candidate_edge\<close> and increments \<open>contain_ct\<close> otherwise.
\<close>

definition returns_at :: "Shape \<Rightarrow> Shape \<Rightarrow> nat \<Rightarrow> bool" where
  "returns_at A B i \<longleftrightarrow>
     sum_B A B i = - sum_A A i * int (mNumSides B) \<or>
     (adj_ct A B i = 2 \<and> sum_temp A B i = - sum_A A i)"

definition candidate_edge :: "Shape \<Rightarrow> Shape \<Rightarrow> nat \<Rightarrow> bool" where
  "candidate_edge A B i \<longleftrightarrow>
     adj_ct A B i = 2 \<or> sum_B A B i \<noteq> sum_A A i * int (mNumSides B)"

text \<open>
  \<open>ProcessData\<close>: the result, \<open>*which\<close>, and the two shapes as the calls leave them.
\<close>

definition ProcessData :: "Shape \<Rightarrow> Shape \<Rightarrow> CollisionType \<times> nat \<times> Shape \<times> Shape" where
  "ProcessData A B =
     (case Analyze A B of (ret, A') \<Rightarrow>
        if ret \<noteq> none then (ret, 0, A', B)
        else (case Analyze B A' of (ret', B') \<Rightarrow> (ret', 1, A', B')))"

section \<open>FindIntersection\<close>

text \<open>
  The points that \<open>FindIntersection\<close> writes to \<open>std::cout\<close>, in the order of writing, are
  the result of the model.

  \<open>A_intercept\<close> and \<open>B_intercept\<close> are declared without a value and assigned only for an
  edge at an angle to the axes. Where the source reads one that was never assigned, the
  model reads an indeterminate value that it takes as a parameter: \<open>gA a\<close> for the
  locals of the outer iteration on edge \<open>a\<close>, \<open>gB a b\<close> for those of the inner iteration on
  the pair \<open>(a, b)\<close>. Every statement below holds for all \<open>gA\<close> and \<open>gB\<close>.
\<close>

type_synonym point = "fl \<times> fl"

text \<open>
  Lines 240 to 254: \<open>(A_slope, A_intercept, intr_x, intr_y)\<close> before the inner loop.
\<close>

definition A_line :: "Shape \<Rightarrow> nat \<Rightarrow> fl \<Rightarrow> fl \<times> fl \<times> fl \<times> fl" where
  "A_line A A_index g =
     (case edge_points A A_index of (A_x1, A_y1, A_x2, A_y2) \<Rightarrow>
        if A_x1 = A_x2 then (Fin INV, g, Fin A_x1, g)
        else if A_y1 = A_y2 then (Fin INV, g, g, Fin A_y1)
        else
          (let A_slope = f_div (f_sub (Fin A_y1) (Fin A_y2)) (f_sub (Fin A_x1) (Fin A_x2))
           in (A_slope, f_sub (Fin A_y1) (f_mul A_slope (Fin A_x1)), g, g)))"

text \<open>Lines 266 to 275: the intersection point is reset.\<close>

definition reset_point :: "rat \<times> rat \<times> rat \<times> rat \<Rightarrow> point \<Rightarrow> point" where
  "reset_point eA p =
     (case eA of (A_x1, A_y1, A_x2, A_y2) \<Rightarrow>
        if A_x1 = A_x2 then (fst p, Fin INV)
        else if A_y1 = A_y2 then (Fin INV, snd p)
        else (Fin INV, Fin INV))"

text \<open>Lines 290 and 291: both edges parallel to the same axis.\<close>

definition axis_parallel :: "rat \<times> rat \<times> rat \<times> rat \<Rightarrow> rat \<times> rat \<times> rat \<times> rat \<Rightarrow> bool" where
  "axis_parallel eA eB =
     (case eA of (A_x1, A_y1, A_x2, A_y2) \<Rightarrow>
      case eB of (B_x1, B_y1, B_x2, B_y2) \<Rightarrow>
        (A_x1 = A_x2 \<and> B_x1 = B_x2) \<or> (A_y1 = A_y2 \<and> B_y1 = B_y2))"

text \<open>
  Lines 284 to 306: \<open>(intr_x, intr_y, B_slope, B_intercept)\<close> once the edge of \<open>B\<close> is read.
\<close>

definition B_line :: "rat \<times> rat \<times> rat \<times> rat \<Rightarrow> fl \<Rightarrow> point \<Rightarrow> fl \<times> fl \<times> fl \<times> fl" where
  "B_line eB g p =
     (case eB of (B_x1, B_y1, B_x2, B_y2) \<Rightarrow>
        if B_x1 = B_x2 then (Fin B_x1, snd p, Fin INV, g)
        else if B_y1 = B_y2 then (fst p, Fin B_y1, Fin INV, g)
        else
          (let B_slope = f_div (f_sub (Fin B_y1) (Fin B_y2)) (f_sub (Fin B_x1) (Fin B_x2))
           in (fst p, snd p, B_slope, f_sub (Fin B_y1) (f_mul B_slope (Fin B_x1)))))"

text \<open>Lines 312 and 313: the test for the perpendicular, axis-aligned crossing.\<close>

definition perpendicular :: "rat \<times> rat \<times> rat \<times> rat \<Rightarrow> rat \<times> rat \<times> rat \<times> rat \<Rightarrow> point \<Rightarrow> bool" where
  "perpendicular eA eB p =
     (case eA of (A_x1, A_y1, A_x2, A_y2) \<Rightarrow>
      case eB of (B_x1, B_y1, B_x2, B_y2) \<Rightarrow>
        (f_eq (fst p) (Fin A_x1) \<and> f_eq (snd p) (Fin B_y1)) \<or>
        (f_eq (fst p) (Fin B_x1) \<and> f_eq (snd p) (Fin A_y1)))"

text \<open>Lines 332 to 352: the point where the two lines meet.\<close>

definition solve :: "rat \<times> rat \<times> rat \<times> rat \<Rightarrow> rat \<times> rat \<times> rat \<times> rat \<Rightarrow>
    fl \<Rightarrow> fl \<Rightarrow> fl \<Rightarrow> fl \<Rightarrow> point \<Rightarrow> point" where
  "solve eA eB A_slope A_intercept B_slope B_intercept p =
     (case eA of (A_x1, A_y1, A_x2, A_y2) \<Rightarrow>
      case eB of (B_x1, B_y1, B_x2, B_y2) \<Rightarrow>
      case p of (intr_x, intr_y) \<Rightarrow>
        if f_eq intr_x (Fin A_x1) \<and> \<not> f_eq B_slope (Fin INV) then
          (intr_x, f_add (f_mul B_slope intr_x) B_intercept)
        else if f_eq intr_x (Fin B_x1) \<and> \<not> f_eq A_slope (Fin INV) then
          (intr_x, f_add (f_mul A_slope intr_x) A_intercept)
        else if f_eq intr_y (Fin A_y1) \<and> \<not> f_eq B_slope (Fin INV) then
          (f_div (f_sub (Fin A_y1) B_intercept) B_slope, intr_y)
        else if f_eq intr_y (Fin B_y1) \<and> \<not> f_eq A_slope (Fin INV) then
          (f_div (f_sub (Fin B_y1) A_intercept) A_slope, intr_y)
        else
          (let x = f_div (f_sub B_intercept A_intercept) (f_sub A_slope B_slope)
           in (x, f_add (f_mul A_slope x) A_intercept)))"

text \<open>Lines 360 and 361: the point is the second end point of one of the edges.\<close>

definition second_endpoint :: "rat \<times> rat \<times> rat \<times> rat \<Rightarrow> point \<Rightarrow> bool" where
  "second_endpoint e p =
     (case e of (x1, y1, x2, y2) \<Rightarrow> f_eq (fst p) (Fin x2) \<and> f_eq (snd p) (Fin y2))"

text \<open>Lines 320 to 322 and 369 to 371: the point is written if it lies on both edges.\<close>

definition emit :: "Shape \<Rightarrow> nat \<Rightarrow> Shape \<Rightarrow> nat \<Rightarrow> point \<Rightarrow> point list" where
  "emit A A_index B B_index p =
     (if LiesOnEdge A (fst p) (snd p) A_index \<and> LiesOnEdge B (fst p) (snd p) B_index
      then [p] else [])"

text \<open>
  The body of the inner loop for the pair \<open>(A_index, B_index)\<close>. It takes \<open>(intr_x, intr_y)\<close>
  as the previous iteration left them and returns them with the points written.
\<close>

definition pair_step :: "Shape \<Rightarrow> Shape \<Rightarrow> nat \<Rightarrow> fl \<Rightarrow> fl \<Rightarrow> nat \<Rightarrow> fl \<Rightarrow> point \<Rightarrow>
    point \<times> point list" where
  "pair_step A B A_index A_slope A_intercept B_index g p0 =
     (let eA = edge_points A A_index;
          eB = edge_points B B_index;
          p1 = reset_point eA p0
      in if axis_parallel eA eB then (p1, [])
         else
           (case B_line eB g p1 of (intr_x, intr_y, B_slope, B_intercept) \<Rightarrow>
              if perpendicular eA eB (intr_x, intr_y)
              then ((intr_x, intr_y), emit A A_index B B_index (intr_x, intr_y))
              else
                (let p2 = solve eA eB A_slope A_intercept B_slope B_intercept (intr_x, intr_y)
                 in if second_endpoint eA p2 \<or> second_endpoint eB p2 then (p2, [])
                    else (p2, emit A A_index B B_index p2))))"

text \<open>
  The iteration on the pair takes the branch of lines 312 to 325, the perpendicular
  axis-aligned fast path.
\<close>

definition fast_path :: "Shape \<Rightarrow> Shape \<Rightarrow> nat \<Rightarrow> nat \<Rightarrow> fl \<Rightarrow> point \<Rightarrow> bool" where
  "fast_path A B A_index B_index g p0 =
     (let eA = edge_points A A_index;
          eB = edge_points B B_index
      in \<not> axis_parallel eA eB \<and>
         (case B_line eB g (reset_point eA p0) of (intr_x, intr_y, B_slope, B_intercept) \<Rightarrow>
            perpendicular eA eB (intr_x, intr_y)))"

text \<open>The inner loop, over the candidate edges of \<open>B\<close>.\<close>

fun inner_loop :: "Shape \<Rightarrow> Shape \<Rightarrow> nat \<Rightarrow> fl \<Rightarrow> fl \<Rightarrow> (nat \<Rightarrow> fl) \<Rightarrow> nat list \<Rightarrow> point \<Rightarrow>
    point list" where
  "inner_loop A B A_index A_slope A_intercept g [] p = []"
| "inner_loop A B A_index A_slope A_intercept g (B_index # bs) p =
     (case pair_step A B A_index A_slope A_intercept B_index (g B_index) p of (p', out) \<Rightarrow>
        out @ inner_loop A B A_index A_slope A_intercept g bs p')"

text \<open>The outer loop, over the candidate edges of \<open>A\<close>.\<close>

fun outer_loop :: "(nat \<Rightarrow> fl) \<Rightarrow> (nat \<Rightarrow> nat \<Rightarrow> fl) \<Rightarrow> Shape \<Rightarrow> Shape \<Rightarrow> nat list \<Rightarrow> point list" where
  "outer_loop gA gB A B [] = []"
| "outer_loop gA gB A B (A_index # as) =
     (case A_line A A_index (gA A_index) of (A_slope, A_intercept, intr_x, intr_y) \<Rightarrow>
        inner_loop A B A_index A_slope A_intercept (gB A_index) (mIsectEdge B) (intr_x, intr_y))
     @ outer_loop gA gB A B as"

definition FindIntersection :: "(nat \<Rightarrow> fl) \<Rightarrow> (nat \<Rightarrow> nat \<Rightarrow> fl) \<Rightarrow> Shape \<Rightarrow> Shape \<Rightarrow> point list" where
  "FindIntersection gA gB A B = outer_loop gA gB A B (mIsectEdge A)"

text \<open>
  \<open>Analyzer\<close>: the message written for the result of \<open>ProcessData\<close>, without its line
  breaks, and the points that follow it.
\<close>

definition Analyzer :: "(nat \<Rightarrow> fl) \<Rightarrow> (nat \<Rightarrow> nat \<Rightarrow> fl) \<Rightarrow> Shape \<Rightarrow> Shape \<Rightarrow> string \<times> point list" where
  "Analyzer gA gB A B =
     (case ProcessData A B of (ret, AorB, A', B') \<Rightarrow>
        (case ret of
           apart \<Rightarrow> (mName A' @ '' A and '' @ mName B' @ '' B are well separated.'', [])
         | adj \<Rightarrow> (mName A' @ '' A and '' @ mName B' @ '' B are adjacent.'', [])
         | contain \<Rightarrow>
             (if AorB = 0
              then mName B' @ '' B is wholly contained within '' @ mName A' @ '' A.''
              else mName B' @ '' A is wholly contained within '' @ mName A' @ '' B.'', [])
         | none \<Rightarrow>
             (mName A' @ '' A and '' @ mName B' @ '' B intersect. The points of intersection are: '',
              FindIntersection gA gB A' B')))"

text \<open>
  Two edges are parallel: both vertical (equal \<open>x\<close> end points), both horizontal (equal
  \<open>y\<close> end points), or both at an angle to the axes with equal slopes.
\<close>

definition parallel_edges :: "rat \<times> rat \<times> rat \<times> rat \<Rightarrow> rat \<times> rat \<times> rat \<times> rat \<Rightarrow> bool" where
  "parallel_edges eA eB =
     (case eA of (A_x1, A_y1, A_x2, A_y2) \<Rightarrow>
      case eB of (B_x1, B_y1, B_x2, B_y2) \<Rightarrow>
        (A_x1 = A_x2 \<and> B_x1 = B_x2) \<or> (A_y1 = A_y2 \<and> B_y1 = B_y2) \<or>
        (A_x1 \<noteq> A_x2 \<and> A_y1 \<noteq> A_y2 \<and> B_x1 \<noteq> B_x2 \<and> B_y1 \<noteq> B_y2 \<and>
         (A_y1 - A_y2) / (A_x1 - A_x2) = (B_y1 - B_y2) / (B_x1 - B_x2)))"

section \<open>Rectangle\<close>

text \<open>
  \<open>Rectangle::Slope\<close> and \<open>Rectangle::SanityCheck\<close>, on the eight coordinates that the
  constructor has read.
\<close>

definition Slope :: "Shape \<Rightarrow> nat \<Rightarrow> rat" where
  "Slope R index =
     (let x1 = mPoints R ! (2 * index);
          x2 = mPoints R ! ((2 * index + 2) mod 8)
      in if x1 = x2 then INV
         else
           (let y1 = mPoints R ! (2 * index + 1);
                y2 = mPoints R ! ((2 * index + 3) mod 8)
            in if y1 = y2 then 0 else (y1 - y2) / (x1 - x2)))"

definition SanityCheck :: "Shape \<Rightarrow> bool" where
  "SanityCheck R =
     (let slope = map (Slope R) [0..<4]
      in if slope ! 0 \<noteq> slope ! 2 then False
         else if slope ! 1 \<noteq> slope ! 3 then False
         else if slope ! 0 = 0 \<or> slope ! 0 = INV then
           (if slope ! 0 = 0 then slope ! 1 = INV else slope ! 1 = 0)
         else if slope ! 1 = 0 \<or> slope ! 1 = INV then False
         else slope ! 0 * slope ! 1 = - 1)"

text \<open>The rectangle that the constructor builds from eight coordinates.\<close>

definition Rectangle :: "rat list \<Rightarrow> Shape" where
  "Rectangle ps = \<lparr>mNumSides = 4, mIsectEdge = [], mPoints = ps, mName = ''Rectangle''\<rparr>"

text \<open>
  The validation as the specification words it, on the geometry of the four edges: an edge
  is vertical, horizontal, or has a slope; opposite edges have equal slope; adjacent edges
  are perpendicular, which is a product of slopes of \<open>-1\<close> or a horizontal edge next to a
  vertical one.
\<close>

datatype direction = Vertical | Horizontal | Sloped rat

definition edge_direction :: "Shape \<Rightarrow> nat \<Rightarrow> direction" where
  "edge_direction R index =
     (case edge_points R index of (x1, y1, x2, y2) \<Rightarrow>
        if x1 = x2 then Vertical
        else if y1 = y2 then Horizontal
        else Sloped ((y1 - y2) / (x1 - x2)))"

fun perpendicular_directions :: "direction \<Rightarrow> direction \<Rightarrow> bool" where
  "perpendicular_directions (Sloped s) (Sloped t) = (s * t = - 1)"
| "perpendicular_directions Horizontal Vertical = True"
| "perpendicular_directions Vertical Horizontal = True"
| "perpendicular_directions _ _ = False"

definition spec_rectangle :: "Shape \<Rightarrow> bool" where
  "spec_rectangle R \<longleftrightarrow>
     edge_direction R 0 = edge_direction R 2 \<and>
     edge_direction R 1 = edge_direction R 3 \<and>
     list_all (\<lambda>i. perpendicular_directions (edge_direction R i) (edge_direction R ((i + 1) mod 4)))
       [0..<4]"

section \<open>Facts about Analyze\<close>

text \<open>No quantity of the loop reads the candidate edges of the subject.\<close>

lemma edge_points_isect [simp]: "edge_points (mIsectEdge_update f A) i = edge_points A i"
  by (simp add: edge_points_def)

lemma LiesOnEdge_isect [simp]: "LiesOnEdge (mIsectEdge_update f A) x y i = LiesOnEdge A x y i"
  by (simp add: LiesOnEdge_def)

lemma sum_A_loop_isect [simp]: "sum_A_loop (mIsectEdge_update f A) e js s = sum_A_loop A e js s"
  by (induction js arbitrary: s) simp_all

lemma sum_A_isect [simp]: "sum_A (mIsectEdge_update f A) i = sum_A A i"
  by (simp add: sum_A_def)

lemma sum_B_loop_isect [simp]:
  "sum_B_loop (mIsectEdge_update f A) B i js acc = sum_B_loop A B i js acc"
proof (induction js arbitrary: acc)
  case Nil
  show ?case by simp
next
  case (Cons j js)
  obtain sB ac where acc: "acc = (sB, ac)" by (cases acc)
  show ?case unfolding acc by (simp add: Cons.IH Let_def)
qed

lemma sum_B_isect [simp]: "sum_B (mIsectEdge_update f A) B i = sum_B A B i"
  by (simp add: sum_B_def)

lemma adj_ct_isect [simp]: "adj_ct (mIsectEdge_update f A) B i = adj_ct A B i"
  by (simp add: adj_ct_def)

lemma sum_temp_isect [simp]: "sum_temp (mIsectEdge_update f A) B i = sum_temp A B i"
  by (simp add: sum_temp_def)

lemma returns_at_isect [simp]: "returns_at (mIsectEdge_update f A) B i = returns_at A B i"
  by (simp add: returns_at_def)

lemma candidate_edge_isect [simp]:
  "candidate_edge (mIsectEdge_update f A) B i = candidate_edge A B i"
  by (simp add: candidate_edge_def)

lemma sum_B_loop_other_isect [simp]:
  "sum_B_loop A (mIsectEdge_update f B) i js acc = sum_B_loop A B i js acc"
proof (induction js arbitrary: acc)
  case Nil
  show ?case by simp
next
  case (Cons j js)
  obtain sB ac where acc: "acc = (sB, ac)" by (cases acc)
  show ?case unfolding acc by (simp add: Cons.IH Let_def)
qed

lemma Analyze_loop_other_isect [simp]:
  "Analyze_loop A (mIsectEdge_update f B) xs c = Analyze_loop A B xs c"
  by (induction xs arbitrary: A c) (simp_all add: sum_B_def adj_ct_def sum_temp_def)

lemma Analyze_other_isect: "Analyze A (mIsectEdge_update f B) = Analyze A B"
  by (simp add: Analyze_def)

text \<open>
  Every vertex of the other shape is counted once: in \<open>sum_B\<close> with a sign, in \<open>adj_ct\<close>, or
  in neither. So an edge with \<open>adj_ct = 2\<close> passes both tests on \<open>sum_B\<close>.
\<close>

lemma sum_B_loop_bound:
  "sum_B_loop A B i js (sB, ac) = (sB', ac') \<Longrightarrow>
     \<bar>sB'\<bar> + int ac' \<le> \<bar>sB\<bar> + int ac + int (length js)"
proof (induction js arbitrary: sB ac)
  case Nil
  then show ?case by simp
next
  case (Cons j js)
  let ?d = "dotprod (edge_points A i) (mPoints B ! (2 * j)) (mPoints B ! (2 * j + 1))"
  consider (pos) "0 < ?d" | (neg) "?d < 0"
    | (on) "?d = 0" "LiesOnEdge A (Fin (mPoints B ! (2 * j))) (Fin (mPoints B ! (2 * j + 1))) i"
    | (off) "?d = 0" "\<not> LiesOnEdge A (Fin (mPoints B ! (2 * j))) (Fin (mPoints B ! (2 * j + 1))) i"
    by fastforce
  then show ?case
  proof cases
    case pos
    with Cons.prems have "sum_B_loop A B i js (sB + 1, ac) = (sB', ac')" by (simp add: Let_def)
    from Cons.IH [OF this] show ?thesis by simp
  next
    case neg
    with Cons.prems have "sum_B_loop A B i js (sB - 1, ac) = (sB', ac')" by (simp add: Let_def)
    from Cons.IH [OF this] show ?thesis by simp
  next
    case on
    with Cons.prems have "sum_B_loop A B i js (sB, ac + 1) = (sB', ac')" by (simp add: Let_def)
    from Cons.IH [OF this] show ?thesis by simp
  next
    case off
    with Cons.prems have "sum_B_loop A B i js (sB, ac) = (sB', ac')" by (simp add: Let_def)
    from Cons.IH [OF this] show ?thesis by simp
  qed
qed

lemma sum_B_adj_ct_bound: "\<bar>sum_B A B i\<bar> + int (adj_ct A B i) \<le> int (mNumSides B)"
  using sum_B_loop_bound [of A B i "[0..<mNumSides B]" 0 0 "sum_B A B i" "adj_ct A B i"]
  by (simp add: sum_B_def adj_ct_def)

lemma sum_A_cases: "sum_A A i = 1 \<or> sum_A A i = - 1"
  by (simp add: sum_A_def)

lemma all_sides_no_adj:
  assumes "\<bar>sum_B A B i\<bar> = int (mNumSides B)"
  shows "adj_ct A B i = 0"
  using sum_B_adj_ct_bound [of A B i] assms by simp

lemma abs_side_product: "\<bar>sum_A A i * int n\<bar> = int n" "\<bar>- sum_A A i * int n\<bar> = int n"
  using sum_A_cases [of A i] by (auto simp: abs_mult)

lemma adj_two_not_apart:
  "adj_ct A B i = 2 \<Longrightarrow> sum_B A B i \<noteq> - sum_A A i * int (mNumSides B)"
  using all_sides_no_adj [of A B i] abs_side_product(2) [of A i "mNumSides B"] by fastforce

lemma adj_two_not_vote:
  "adj_ct A B i = 2 \<Longrightarrow> sum_B A B i \<noteq> sum_A A i * int (mNumSides B)"
  using all_sides_no_adj [of A B i] abs_side_product(1) [of A i "mNumSides B"] by fastforce

text \<open>One iteration of the loop, and the iterations before the first that returns.\<close>

lemma Analyze_loop_step:
  "Analyze_loop A B (i # is) c =
     (if sum_B A B i = - sum_A A i * int (mNumSides B) then (apart, A)
      else if adj_ct A B i = 2 \<and> sum_temp A B i = - sum_A A i then (adj, A)
      else if candidate_edge A B i then Analyze_loop (push_back A i) B is c
      else Analyze_loop A B is (c + 1))"
  by (simp add: candidate_edge_def)

lemma Analyze_loop_continue:
  "\<not> returns_at A B i \<Longrightarrow>
     Analyze_loop A B (i # is) c =
       (if candidate_edge A B i then Analyze_loop (push_back A i) B is c
        else Analyze_loop A B is (c + 1))"
  by (auto simp add: returns_at_def candidate_edge_def)

lemma Analyze_loop_prefix:
  "\<forall>k\<in>set xs. \<not> returns_at A B k \<Longrightarrow>
     Analyze_loop A B (xs @ ys) c =
       Analyze_loop (A\<lparr>mIsectEdge := mIsectEdge A @ filter (candidate_edge A B) xs\<rparr>) B ys
         (c + length (filter (\<lambda>k. \<not> candidate_edge A B k) xs))"
proof (induction xs arbitrary: A c)
  case Nil
  show ?case by simp
next
  case (Cons k xs)
  from Cons.prems have nk: "\<not> returns_at A B k" and rest: "\<forall>k\<in>set xs. \<not> returns_at A B k"
    by simp_all
  show ?case
  proof (cases "candidate_edge A B k")
    case True
    from rest have "\<forall>j\<in>set xs. \<not> returns_at (push_back A k) B j"
      by (simp add: push_back_def)
    from Cons.IH [OF this, of c] show ?thesis
      by (simp add: Analyze_loop_continue [OF nk] True push_back_def del: Analyze_loop.simps)
  next
    case False
    from Cons.IH [OF rest, of "c + 1"] show ?thesis
      by (simp add: Analyze_loop_continue [OF nk] False del: Analyze_loop.simps)
  qed
qed

lemma Analyze_loop_returns:
  "\<exists>k\<in>set xs. returns_at A B k \<Longrightarrow> fst (Analyze_loop A B xs c) \<in> {apart, adj}"
proof (induction xs arbitrary: A c)
  case Nil
  then show ?case by simp
next
  case (Cons k xs)
  show ?case
  proof (cases "returns_at A B k")
    case True
    then show ?thesis
      by (auto simp add: Analyze_loop_step returns_at_def simp del: Analyze_loop.simps)
  next
    case False
    with Cons.prems have ex: "\<exists>j\<in>set xs. returns_at A B j" by simp
    then have ex': "\<exists>j\<in>set xs. returns_at (push_back A k) B j" by (simp add: push_back_def)
    from Cons.IH [OF ex, of "c + 1"] Cons.IH [OF ex', of c] show ?thesis
      by (simp add: Analyze_loop_step del: Analyze_loop.simps)
  qed
qed

lemma upt_split: "i < n \<Longrightarrow> [0..<n] = [0..<i] @ i # [Suc i..<n]"
  by (metis le0 upt_add_eq_append upt_conv_Cons le_add_diff_inverse less_imp_le_nat)

text \<open>The subject after the loop: its candidate edges grow at the end, nothing else changes.\<close>

lemma Analyze_loop_stale:
  "Analyze_loop (A\<lparr>mIsectEdge := es @ mIsectEdge A\<rparr>) B xs c =
     (fst (Analyze_loop A B xs c),
      (snd (Analyze_loop A B xs c))\<lparr>mIsectEdge := es @ mIsectEdge (snd (Analyze_loop A B xs c))\<rparr>)"
proof (induction xs arbitrary: A c)
  case Nil
  show ?case by simp
next
  case (Cons k xs)
  have push: "push_back (A\<lparr>mIsectEdge := es @ mIsectEdge A\<rparr>) k
      = (push_back A k)\<lparr>mIsectEdge := es @ mIsectEdge (push_back A k)\<rparr>"
    by (simp add: push_back_def)
  show ?case
    by (simp add: Analyze_loop_step push Cons.IH del: Analyze_loop.simps)
qed

lemma Analyze_loop_frame:
  "mNumSides (snd (Analyze_loop A B xs c)) = mNumSides A \<and>
   mPoints (snd (Analyze_loop A B xs c)) = mPoints A \<and>
   mName (snd (Analyze_loop A B xs c)) = mName A \<and>
   prefix (mIsectEdge A) (mIsectEdge (snd (Analyze_loop A B xs c)))"
proof (induction xs arbitrary: A c)
  case Nil
  show ?case by simp
next
  case (Cons k xs)
  let ?P = "snd (Analyze_loop (push_back A k) B xs c)"
  have "prefix (mIsectEdge A @ [k]) (mIsectEdge ?P)"
    using Cons.IH [of "push_back A k" c] by (simp add: push_back_def)
  then have pre: "prefix (mIsectEdge A) (mIsectEdge ?P)"
    by (rule append_prefixD)
  have rest: "mNumSides ?P = mNumSides A" "mPoints ?P = mPoints A" "mName ?P = mName A"
    using Cons.IH [of "push_back A k" c] by (simp_all add: push_back_def)
  from pre rest Cons.IH [of A "c + 1"] show ?case
    by (simp add: Analyze_loop_step del: Analyze_loop.simps)
qed

lemma Analyze_frame_fields:
  "mNumSides (snd (Analyze A B)) = mNumSides A"
  "mPoints (snd (Analyze A B)) = mPoints A"
  "mName (snd (Analyze A B)) = mName A"
  "prefix (mIsectEdge A) (mIsectEdge (snd (Analyze A B)))"
  using Analyze_loop_frame [of A B "[0..<mNumSides A]" 0] by (simp_all add: Analyze_def)

lemma Analyze_snd_shape:
  "snd (Analyze A B) = A\<lparr>mIsectEdge := mIsectEdge (snd (Analyze A B))\<rparr>"
  by (rule Shape.equality) (simp_all add: Analyze_frame_fields)

lemma Analyze_other_result: "Analyze B (snd (Analyze A B)) = Analyze B A"
proof -
  have "Analyze B (snd (Analyze A B)) = Analyze B (A\<lparr>mIsectEdge := mIsectEdge (snd (Analyze A B))\<rparr>)"
    using Analyze_snd_shape [of A B] by simp
  then show ?thesis by (simp add: Analyze_other_isect)
qed

text \<open>
  \<open>Analyze\<close> pushes edges of the subject only, so the shapes that \<open>FindIntersection\<close>
  receives are well formed and every read of \<open>mPoints\<close> is in range.
\<close>

lemma edge_reads_in_range:
  assumes "wf_shape S" and "i < mNumSides S"
  shows "2 * i < length (mPoints S)" and "2 * i + 1 < length (mPoints S)"
    and "(2 * i + 2) mod (2 * mNumSides S) < length (mPoints S)"
    and "(2 * i + 3) mod (2 * mNumSides S) < length (mPoints S)"
  using assms by (simp_all add: wf_shape_def)

lemma wf_shape_push_back: "wf_shape A \<Longrightarrow> k < mNumSides A \<Longrightarrow> wf_shape (push_back A k)"
  by (simp add: wf_shape_def push_back_def)

lemma Analyze_loop_wf:
  "wf_shape A \<Longrightarrow> \<forall>k\<in>set xs. k < mNumSides A \<Longrightarrow> wf_shape (snd (Analyze_loop A B xs c))"
proof (induction xs arbitrary: A c)
  case Nil
  then show ?case by simp
next
  case (Cons k xs)
  from Cons.prems have k: "k < mNumSides A" and rest: "\<forall>j\<in>set xs. j < mNumSides A"
    by simp_all
  have "wf_shape (push_back A k)"
    using Cons.prems(1) k by (rule wf_shape_push_back)
  moreover from rest have "\<forall>j\<in>set xs. j < mNumSides (push_back A k)"
    by (simp add: push_back_def)
  ultimately have "wf_shape (snd (Analyze_loop (push_back A k) B xs c))"
    by (rule Cons.IH)
  with Cons.IH [OF Cons.prems(1) rest, of "c + 1"] Cons.prems(1) show ?case
    by (simp add: Analyze_loop_step del: Analyze_loop.simps)
qed

lemma Analyze_wf: "wf_shape A \<Longrightarrow> wf_shape (snd (Analyze A B))"
  by (simp add: Analyze_def Analyze_loop_wf)

section \<open>Analyze: the claims\<close>

text \<open>
  Claim C1, as the code has it. \<open>Analyze\<close> never clears \<open>mIsectEdge\<close>: it only pushes. When the
  call returns, the subject holds the candidate edges it held at the start, in their
  order, followed by the edges recorded during the call, which are those that the same
  call records on a subject without candidate edges. The classification does not depend
  on the candidate edges held at the start.
\<close>

theorem Analyze_appends:
  "Analyze A B =
     (fst (Analyze (A\<lparr>mIsectEdge := []\<rparr>) B),
      A\<lparr>mIsectEdge := mIsectEdge A @ mIsectEdge (snd (Analyze (A\<lparr>mIsectEdge := []\<rparr>) B))\<rparr>)"
proof -
  let ?F = "A\<lparr>mIsectEdge := []\<rparr>"
  let ?R = "Analyze_loop ?F B [0..<mNumSides A] 0"
  have same: "?F\<lparr>mIsectEdge := mIsectEdge A @ mIsectEdge ?F\<rparr> = A" by simp
  have frame: "mNumSides (snd ?R) = mNumSides A" "mPoints (snd ?R) = mPoints A"
    "mName (snd ?R) = mName A"
    using Analyze_loop_frame [of ?F B "[0..<mNumSides A]" 0] by simp_all
  have shape: "(snd ?R)\<lparr>mIsectEdge := mIsectEdge A @ mIsectEdge (snd ?R)\<rparr>
      = A\<lparr>mIsectEdge := mIsectEdge A @ mIsectEdge (snd ?R)\<rparr>"
    by (rule Shape.equality) (simp_all add: frame)
  have "Analyze_loop A B [0..<mNumSides A] 0 =
      (fst ?R, (snd ?R)\<lparr>mIsectEdge := mIsectEdge A @ mIsectEdge (snd ?R)\<rparr>)"
    using Analyze_loop_stale [where A = ?F and es = "mIsectEdge A" and B = B
        and xs = "[0..<mNumSides A]" and c = 0]
    by (simp only: same)
  then show ?thesis by (simp add: Analyze_def shape)
qed

theorem Analyze_appends_witness:
  "Analyze ((Rectangle [0, 0, 2, 0, 2, 2, 0, 2])\<lparr>mIsectEdge := [3]\<rparr>)
       (Rectangle [1, 1, 3, 1, 3, 3, 1, 3])
     = (none, (Rectangle [0, 0, 2, 0, 2, 2, 0, 2])\<lparr>mIsectEdge := [3, 1, 2]\<rparr>)"
proof -
  let ?A = "(Rectangle [0, 0, 2, 0, 2, 2, 0, 2])\<lparr>mIsectEdge := [3]\<rparr>"
  let ?B = "Rectangle [1, 1, 3, 1, 3, 3, 1, 3]"
  have fresh: "Analyze (?A\<lparr>mIsectEdge := []\<rparr>) ?B
      = (none, (Rectangle [0, 0, 2, 0, 2, 2, 0, 2])\<lparr>mIsectEdge := [1, 2]\<rparr>)"
    by code_simp
  show ?thesis
    using Analyze_appends [of ?A ?B] unfolding fresh by (simp add: Rectangle_def)
qed

text \<open>
  Claim C1, as it is stated, fails. A rectangle is analysed against a rectangle that it
  intersects and then against one that is far away. The second call records no edge (it
  returns at once, as it does on the rectangle as constructed), and yet the subject holds
  the edges 1 and 2 of the first call when it returns.
\<close>

theorem Analyze_keeps_earlier_edges:
  "Analyze (snd (Analyze (Rectangle [0, 0, 2, 0, 2, 2, 0, 2]) (Rectangle [1, 1, 3, 1, 3, 3, 1, 3])))
       (Rectangle [10, 10, 12, 10, 12, 12, 10, 12])
     = (apart, (Rectangle [0, 0, 2, 0, 2, 2, 0, 2])\<lparr>mIsectEdge := [1, 2]\<rparr>)
   \<and> Analyze (Rectangle [0, 0, 2, 0, 2, 2, 0, 2]) (Rectangle [10, 10, 12, 10, 12, 12, 10, 12])
     = (apart, Rectangle [0, 0, 2, 0, 2, 2, 0, 2])"
  by code_simp

text \<open>
  What the code does at the iteration for edge \<open>i\<close>, reached because no earlier iteration
  returned, with \<open>adj_ct = 2\<close>. The separation test, which comes first in the iteration,
  cannot fire. If \<open>sum_temp\<close> is \<open>- sum_A\<close>, then \<open>Analyze\<close> returns adjacent there, with the
  candidate edges recorded before \<open>i\<close>; otherwise the loop goes on to edge \<open>i + 1\<close> with \<open>i\<close>
  pushed and the containment counter as it was. \<open>sum_temp\<close> is the sign of \<open>sum_B\<close> except
  when \<open>sum_B\<close> is zero, where it is \<open>-1\<close>.
\<close>

lemma Analyze_adjacency_by_sum_temp:
  assumes "i < mNumSides A"
    and "\<forall>k<i. \<not> returns_at A B k"
    and "adj_ct A B i = 2"
  shows "(sum_temp A B i = - sum_A A i \<longrightarrow>
            Analyze A B =
              (adj, A\<lparr>mIsectEdge := mIsectEdge A @ filter (candidate_edge A B) [0..<i]\<rparr>))
       \<and> (sum_temp A B i \<noteq> - sum_A A i \<longrightarrow>
            Analyze A B =
              Analyze_loop
                (A\<lparr>mIsectEdge := mIsectEdge A @ filter (candidate_edge A B) [0..<i] @ [i]\<rparr>) B
                [Suc i..<mNumSides A]
                (length (filter (\<lambda>k. \<not> candidate_edge A B k) [0..<i])))"
proof -
  from assms(2) have before: "\<forall>k\<in>set [0..<i]. \<not> returns_at A B k" by simp
  let ?Ai = "A\<lparr>mIsectEdge := mIsectEdge A @ filter (candidate_edge A B) [0..<i]\<rparr>"
  let ?c = "length (filter (\<lambda>k. \<not> candidate_edge A B k) [0..<i])"
  have reach: "Analyze A B = Analyze_loop ?Ai B (i # [Suc i..<mNumSides A]) ?c"
    using Analyze_loop_prefix [OF before, of "i # [Suc i..<mNumSides A]" 0] upt_split [OF assms(1)]
    by (simp add: Analyze_def)
  have not_apart: "sum_B A B i \<noteq> - sum_A A i * int (mNumSides B)"
    using assms(3) by (rule adj_two_not_apart)
  have cand: "candidate_edge A B i"
    using assms(3) by (simp add: candidate_edge_def)
  have "sum_temp A B i = - sum_A A i \<Longrightarrow> Analyze A B = (adj, ?Ai)"
    using not_apart assms(3) by (simp add: reach)
  moreover have "sum_temp A B i \<noteq> - sum_A A i \<Longrightarrow>
      Analyze A B = Analyze_loop (push_back ?Ai i) B [Suc i..<mNumSides A] ?c"
    using not_apart assms(3) by (simp add: reach)
  moreover have "push_back ?Ai i
      = A\<lparr>mIsectEdge := mIsectEdge A @ filter (candidate_edge A B) [0..<i] @ [i]\<rparr>"
    by (simp add: push_back_def)
  ultimately show ?thesis by simp
qed

lemma Analyze_adjacency_by_sum_temp_example:
  "(1::nat) < mNumSides (Rectangle [0, 0, 1, 0, 1, 1, 0, 1])
   \<and> \<not> returns_at (Rectangle [0, 0, 1, 0, 1, 1, 0, 1]) (Rectangle [1, 0, 2, 0, 2, 1, 1, 1]) 0
   \<and> adj_ct (Rectangle [0, 0, 1, 0, 1, 1, 0, 1]) (Rectangle [1, 0, 2, 0, 2, 1, 1, 1]) 1 = 2
   \<and> sum_temp (Rectangle [0, 0, 1, 0, 1, 1, 0, 1]) (Rectangle [1, 0, 2, 0, 2, 1, 1, 1]) 1
       = - sum_A (Rectangle [0, 0, 1, 0, 1, 1, 0, 1]) 1
   \<and> Analyze (Rectangle [0, 0, 1, 0, 1, 1, 0, 1]) (Rectangle [1, 0, 2, 0, 2, 1, 1, 1])
       = (adj, (Rectangle [0, 0, 1, 0, 1, 1, 0, 1])\<lparr>mIsectEdge := [0]\<rparr>)
   \<and> (0::nat) < mNumSides (Rectangle [0, 0, 4, 0, 4, 4, 0, 4])
   \<and> adj_ct (Rectangle [0, 0, 4, 0, 4, 4, 0, 4]) (Rectangle [1, 0, 2, 0, 2, 1, 1, 1]) 0 = 2
   \<and> sum_temp (Rectangle [0, 0, 4, 0, 4, 4, 0, 4]) (Rectangle [1, 0, 2, 0, 2, 1, 1, 1]) 0
       \<noteq> - sum_A (Rectangle [0, 0, 4, 0, 4, 4, 0, 4]) 0
   \<and> Analyze (Rectangle [0, 0, 4, 0, 4, 4, 0, 4]) (Rectangle [1, 0, 2, 0, 2, 1, 1, 1])
       = Analyze_loop ((Rectangle [0, 0, 4, 0, 4, 4, 0, 4])\<lparr>mIsectEdge := [0]\<rparr>)
           (Rectangle [1, 0, 2, 0, 2, 1, 1, 1]) [1, 2, 3] 0"
proof -
  let ?A = "Rectangle [0, 0, 1, 0, 1, 1, 0, 1]"
  let ?B = "Rectangle [1, 0, 2, 0, 2, 1, 1, 1]"
  let ?C = "Rectangle [0, 0, 4, 0, 4, 4, 0, 4]"
  have a1: "(1::nat) < mNumSides ?A" by code_simp
  have a0: "\<not> returns_at ?A ?B 0" by code_simp
  then have a2: "\<forall>k<1. \<not> returns_at ?A ?B k" by simp
  have a3: "adj_ct ?A ?B 1 = 2" by code_simp
  have a4: "sum_temp ?A ?B 1 = - sum_A ?A 1" by code_simp
  have a5: "?A\<lparr>mIsectEdge := mIsectEdge ?A @ filter (candidate_edge ?A ?B) [0..<1]\<rparr>
      = ?A\<lparr>mIsectEdge := [0]\<rparr>" by code_simp
  have c1: "(0::nat) < mNumSides ?C" by code_simp
  have c2: "\<forall>k<0. \<not> returns_at ?C ?B k" by simp
  have c3: "adj_ct ?C ?B 0 = 2" by code_simp
  have c4: "sum_temp ?C ?B 0 \<noteq> - sum_A ?C 0" by code_simp
  have c5: "?C\<lparr>mIsectEdge := mIsectEdge ?C @ filter (candidate_edge ?C ?B) [0..<0] @ [0]\<rparr>
      = ?C\<lparr>mIsectEdge := [0]\<rparr>" by code_simp
  have c6: "[Suc 0..<mNumSides ?C] = [1, 2, 3]" by code_simp
  have c7: "length (filter (\<lambda>k. \<not> candidate_edge ?C ?B k) [0..<0]) = 0" by simp
  have r1: "Analyze ?A ?B = (adj, ?A\<lparr>mIsectEdge := [0]\<rparr>)"
    using Analyze_adjacency_by_sum_temp [OF a1 a2 a3] a4 unfolding a5 by blast
  have r2: "Analyze ?C ?B = Analyze_loop (?C\<lparr>mIsectEdge := [0]\<rparr>) ?B [1, 2, 3] 0"
    using Analyze_adjacency_by_sum_temp [OF c1 c2 c3] c4 unfolding c5 c6 c7 by blast
  from a1 a0 a3 a4 r1 c1 c3 c4 r2 show ?thesis by blast
qed

text \<open>
  Claim C2 fails on the code when \<open>sum_B\<close> is zero. The square \<open>(0, 0) (0, 4) (4, 4) (4, 0)\<close>
  and the rectangle \<open>(1, 0) (2, 1) (3, 0) (2, -1)\<close> overlap: the rectangle has two vertices on
  edge 3 of the square, one vertex inside the square and one outside. At edge 3, which the
  loop reaches, \<open>adj_ct\<close> is 2, \<open>sum_B\<close> is 0 and \<open>sum_A\<close> is 1, so the sign of \<open>sum_B\<close> is not
  \<open>- sum_A\<close> and by the claim the edge is a candidate. The code takes \<open>sum_temp = -1\<close> for the
  sign of zero and returns adjacent. With the square entered in the other direction the
  same pair is not adjacent: the result is \<open>none\<close>.
\<close>

theorem Analyze_adjacent_on_zero_sum:
  "SanityCheck (Rectangle [0, 0, 0, 4, 4, 4, 4, 0])
   \<and> SanityCheck (Rectangle [1, 0, 2, 1, 3, 0, 2, - 1])
   \<and> \<not> returns_at (Rectangle [0, 0, 0, 4, 4, 4, 4, 0]) (Rectangle [1, 0, 2, 1, 3, 0, 2, - 1]) 0
   \<and> \<not> returns_at (Rectangle [0, 0, 0, 4, 4, 4, 4, 0]) (Rectangle [1, 0, 2, 1, 3, 0, 2, - 1]) 1
   \<and> \<not> returns_at (Rectangle [0, 0, 0, 4, 4, 4, 4, 0]) (Rectangle [1, 0, 2, 1, 3, 0, 2, - 1]) 2
   \<and> adj_ct (Rectangle [0, 0, 0, 4, 4, 4, 4, 0]) (Rectangle [1, 0, 2, 1, 3, 0, 2, - 1]) 3 = 2
   \<and> sum_B (Rectangle [0, 0, 0, 4, 4, 4, 4, 0]) (Rectangle [1, 0, 2, 1, 3, 0, 2, - 1]) 3 = 0
   \<and> sum_A (Rectangle [0, 0, 0, 4, 4, 4, 4, 0]) 3 = 1
   \<and> sgn (sum_B (Rectangle [0, 0, 0, 4, 4, 4, 4, 0]) (Rectangle [1, 0, 2, 1, 3, 0, 2, - 1]) 3)
       \<noteq> - sum_A (Rectangle [0, 0, 0, 4, 4, 4, 4, 0]) 3
   \<and> sum_temp (Rectangle [0, 0, 0, 4, 4, 4, 4, 0]) (Rectangle [1, 0, 2, 1, 3, 0, 2, - 1]) 3 = - 1
   \<and> Analyze (Rectangle [0, 0, 0, 4, 4, 4, 4, 0]) (Rectangle [1, 0, 2, 1, 3, 0, 2, - 1])
       = (adj, Rectangle [0, 0, 0, 4, 4, 4, 4, 0])
   \<and> Analyzer (\<lambda>a. NaN) (\<lambda>a b. NaN)
        (Rectangle [0, 0, 0, 4, 4, 4, 4, 0]) (Rectangle [1, 0, 2, 1, 3, 0, 2, - 1])
       = (''Rectangle A and Rectangle B are adjacent.'', [])
   \<and> Analyzer (\<lambda>a. NaN) (\<lambda>a b. NaN)
        (Rectangle [0, 0, 4, 0, 4, 4, 0, 4]) (Rectangle [1, 0, 2, 1, 3, 0, 2, - 1])
       = (''Rectangle A and Rectangle B intersect. The points of intersection are: '',
          [(Fin 1, Fin 0), (Fin 3, Fin 0)])"
  by code_simp

text \<open>
  Claim C3. At the iteration for edge \<open>i\<close>, reached because no earlier iteration returned,
  with \<open>sum_B = - sum_A * B.mNumSides\<close>, \<open>Analyze\<close> returns apart. No later edge is
  examined: the loop returns the same on every list \<open>rest\<close> of edges after \<open>i\<close>, and the
  candidate edges are those recorded before \<open>i\<close>.
\<close>

theorem Analyze_apart_short_circuit:
  assumes "i < mNumSides A"
    and "\<forall>k<i. \<not> returns_at A B k"
    and "sum_B A B i = - sum_A A i * int (mNumSides B)"
  shows "Analyze_loop A B ([0..<i] @ i # rest) 0 =
           (apart, A\<lparr>mIsectEdge := mIsectEdge A @ filter (candidate_edge A B) [0..<i]\<rparr>)
       \<and> Analyze A B =
           (apart, A\<lparr>mIsectEdge := mIsectEdge A @ filter (candidate_edge A B) [0..<i]\<rparr>)"
proof -
  from assms(2) have before: "\<forall>k\<in>set [0..<i]. \<not> returns_at A B k" by simp
  have loop: "Analyze_loop A B ([0..<i] @ i # r) 0 =
      (apart, A\<lparr>mIsectEdge := mIsectEdge A @ filter (candidate_edge A B) [0..<i]\<rparr>)" for r
    using assms(3) by (simp add: Analyze_loop_prefix [OF before])
  from assms(1) have "[0..<mNumSides A] = [0..<i] @ i # [Suc i..<mNumSides A]"
    by (metis le0 upt_add_eq_append upt_conv_Cons le_add_diff_inverse less_imp_le_nat)
  with loop [of "[Suc i..<mNumSides A]"] loop [of rest] show ?thesis
    by (simp add: Analyze_def)
qed

theorem Analyze_apart_short_circuit_witness:
  "(1::nat) < mNumSides (Rectangle [0, 0, 2, 0, 2, 2, 0, 2])
   \<and> \<not> returns_at (Rectangle [0, 0, 2, 0, 2, 2, 0, 2])
          (Rectangle [10, 10, 12, 10, 12, 12, 10, 12]) 0
   \<and> sum_B (Rectangle [0, 0, 2, 0, 2, 2, 0, 2]) (Rectangle [10, 10, 12, 10, 12, 12, 10, 12]) 1
       = - sum_A (Rectangle [0, 0, 2, 0, 2, 2, 0, 2]) 1
           * int (mNumSides (Rectangle [10, 10, 12, 10, 12, 12, 10, 12]))
   \<and> Analyze (Rectangle [0, 0, 2, 0, 2, 2, 0, 2]) (Rectangle [10, 10, 12, 10, 12, 12, 10, 12])
       = (apart, Rectangle [0, 0, 2, 0, 2, 2, 0, 2])"
proof -
  let ?A = "Rectangle [0, 0, 2, 0, 2, 2, 0, 2]"
  let ?B = "Rectangle [10, 10, 12, 10, 12, 12, 10, 12]"
  have h1: "(1::nat) < mNumSides ?A" by code_simp
  have h0: "\<not> returns_at ?A ?B 0" by code_simp
  then have h2: "\<forall>k<1. \<not> returns_at ?A ?B k" by simp
  have h3: "sum_B ?A ?B 1 = - sum_A ?A 1 * int (mNumSides ?B)" by code_simp
  have c: "?A\<lparr>mIsectEdge := mIsectEdge ?A @ filter (candidate_edge ?A ?B) [0..<1]\<rparr> = ?A"
    by code_simp
  show ?thesis
    using Analyze_apart_short_circuit [OF h1 h2 h3, of "[]"] h0 h1 h3 unfolding c by blast
qed

text \<open>
  Claim C4. If \<open>Analyze\<close> returns neither apart nor adjacent, then no iteration returned,
  and the result is contain exactly when the number of edges of the subject with
  \<open>sum_B = sum_A * B.mNumSides\<close> is \<open>B.mNumSides\<close>, and none otherwise.
\<close>

theorem Analyze_contain_vote:
  assumes "fst (Analyze A B) \<noteq> apart" and "fst (Analyze A B) \<noteq> adj"
  shows "(\<forall>i<mNumSides A. \<not> returns_at A B i)
       \<and> fst (Analyze A B) =
           (if length (filter (\<lambda>i. sum_B A B i = sum_A A i * int (mNumSides B)) [0..<mNumSides A])
                 = mNumSides B
            then contain else none)"
proof -
  have all: "\<forall>k\<in>set [0..<mNumSides A]. \<not> returns_at A B k"
    using Analyze_loop_returns [of "[0..<mNumSides A]" A B 0] assms
    by (auto simp add: Analyze_def)
  have votes: "filter (\<lambda>k. \<not> candidate_edge A B k) [0..<mNumSides A]
      = filter (\<lambda>i. sum_B A B i = sum_A A i * int (mNumSides B)) [0..<mNumSides A]"
    using adj_two_not_vote [of A B] by (intro filter_cong) (auto simp add: candidate_edge_def)
  have "Analyze A B =
      Analyze_loop (A\<lparr>mIsectEdge := mIsectEdge A @ filter (candidate_edge A B) [0..<mNumSides A]\<rparr>)
        B [] (length (filter (\<lambda>k. \<not> candidate_edge A B k) [0..<mNumSides A]))"
    using Analyze_loop_prefix [OF all, of "[]" 0] by (simp add: Analyze_def)
  with all show ?thesis by (simp add: votes)
qed

theorem Analyze_contain_vote_witness:
  "fst (Analyze (Rectangle [0, 0, 4, 0, 4, 4, 0, 4]) (Rectangle [1, 1, 2, 1, 2, 2, 1, 2])) \<noteq> apart
   \<and> fst (Analyze (Rectangle [0, 0, 4, 0, 4, 4, 0, 4]) (Rectangle [1, 1, 2, 1, 2, 2, 1, 2])) \<noteq> adj
   \<and> length (filter (\<lambda>i. sum_B (Rectangle [0, 0, 4, 0, 4, 4, 0, 4]) (Rectangle [1, 1, 2, 1, 2, 2, 1, 2]) i
         = sum_A (Rectangle [0, 0, 4, 0, 4, 4, 0, 4]) i * 4) [0..<4]) = 4
   \<and> fst (Analyze (Rectangle [0, 0, 4, 0, 4, 4, 0, 4]) (Rectangle [1, 1, 2, 1, 2, 2, 1, 2])) = contain
   \<and> fst (Analyze (Rectangle [0, 0, 2, 0, 2, 2, 0, 2]) (Rectangle [1, 1, 3, 1, 3, 3, 1, 3])) \<noteq> apart
   \<and> fst (Analyze (Rectangle [0, 0, 2, 0, 2, 2, 0, 2]) (Rectangle [1, 1, 3, 1, 3, 3, 1, 3])) \<noteq> adj
   \<and> length (filter (\<lambda>i. sum_B (Rectangle [0, 0, 2, 0, 2, 2, 0, 2]) (Rectangle [1, 1, 3, 1, 3, 3, 1, 3]) i
         = sum_A (Rectangle [0, 0, 2, 0, 2, 2, 0, 2]) i * 4) [0..<4]) = 2
   \<and> fst (Analyze (Rectangle [0, 0, 2, 0, 2, 2, 0, 2]) (Rectangle [1, 1, 3, 1, 3, 3, 1, 3])) = none"
proof -
  let ?A = "Rectangle [0, 0, 4, 0, 4, 4, 0, 4]"
  let ?B = "Rectangle [1, 1, 2, 1, 2, 2, 1, 2]"
  let ?C = "Rectangle [0, 0, 2, 0, 2, 2, 0, 2]"
  let ?D = "Rectangle [1, 1, 3, 1, 3, 3, 1, 3]"
  have a1: "fst (Analyze ?A ?B) \<noteq> apart" by code_simp
  have a2: "fst (Analyze ?A ?B) \<noteq> adj" by code_simp
  have a3: "length (filter (\<lambda>i. sum_B ?A ?B i = sum_A ?A i * 4) [0..<4]) = 4" by code_simp
  have n: "mNumSides ?A = 4" "mNumSides ?B = 4" "mNumSides ?C = 4" "mNumSides ?D = 4"
    by (simp_all add: Rectangle_def)
  have c1: "fst (Analyze ?C ?D) \<noteq> apart" by code_simp
  have c2: "fst (Analyze ?C ?D) \<noteq> adj" by code_simp
  have c3: "length (filter (\<lambda>i. sum_B ?C ?D i = sum_A ?C i * 4) [0..<4]) = 2" by code_simp
  from Analyze_contain_vote [OF a1 a2] a3 have r1: "fst (Analyze ?A ?B) = contain"
    by (simp add: n)
  from Analyze_contain_vote [OF c1 c2] c3 have r2: "fst (Analyze ?C ?D) = none"
    by (simp add: n)
  from a1 a2 a3 r1 c1 c2 c3 r2 show ?thesis by blast
qed

text \<open>
  Claim C5. \<open>ProcessData\<close> returns the result of \<open>Analyze (A, B)\<close> with \<open>*which = 0\<close> if
  that result is not \<open>none\<close>, and otherwise the result of \<open>Analyze (B, A)\<close> with
  \<open>*which = 1\<close>. The second call sees \<open>A\<close> with the candidate edges of the first, which it
  does not read. On a final \<open>none\<close>, and only then, \<open>Analyzer\<close> reports an intersection
  and runs \<open>FindIntersection\<close> on the two shapes as the calls left them.
\<close>

theorem ProcessData_order:
  "ProcessData A B =
     (if fst (Analyze A B) \<noteq> none then (fst (Analyze A B), 0, snd (Analyze A B), B)
      else (fst (Analyze B A), 1, snd (Analyze A B), snd (Analyze B A)))
   \<and> Analyzer gA gB A B =
       (if fst (ProcessData A B) = none
        then (mName A @ '' A and '' @ mName B @ '' B intersect. The points of intersection are: '',
              FindIntersection gA gB (snd (Analyze A B)) (snd (Analyze B A)))
        else (fst (Analyzer gA gB A B), []))"
proof -
  obtain r A' where ab: "Analyze A B = (r, A')" by (cases "Analyze A B")
  obtain r' B' where ba: "Analyze B A = (r', B')" by (cases "Analyze B A")
  have other: "Analyze B A' = Analyze B A"
    using Analyze_other_result [of B A] by (simp add: ab)
  have names: "mName A' = mName A" "mName B' = mName B"
    using Analyze_frame_fields(3) [of A B] Analyze_frame_fields(3) [of B A] by (simp_all add: ab ba)
  have pd: "ProcessData A B = (if r \<noteq> none then (r, 0, A', B) else (r', 1, A', B'))"
    by (simp add: ProcessData_def ab other ba)
  have an: "Analyzer gA gB A B =
      (if fst (ProcessData A B) = none
       then (mName A @ '' A and '' @ mName B @ '' B intersect. The points of intersection are: '',
             FindIntersection gA gB A' B')
       else (fst (Analyzer gA gB A B), []))"
    by (cases r; cases r') (simp_all add: Analyzer_def pd names)
  show ?thesis
    using pd an unfolding ab ba fst_conv snd_conv by blast
qed

theorem ProcessData_order_witness:
  "ProcessData (Rectangle [0, 0, 4, 0, 4, 4, 0, 4]) (Rectangle [1, 1, 2, 1, 2, 2, 1, 2])
     = (contain, 0, Rectangle [0, 0, 4, 0, 4, 4, 0, 4], Rectangle [1, 1, 2, 1, 2, 2, 1, 2])
   \<and> ProcessData (Rectangle [1, 1, 2, 1, 2, 2, 1, 2]) (Rectangle [0, 0, 4, 0, 4, 4, 0, 4])
     = (contain, 1, (Rectangle [1, 1, 2, 1, 2, 2, 1, 2])\<lparr>mIsectEdge := [0, 1, 2, 3]\<rparr>,
        Rectangle [0, 0, 4, 0, 4, 4, 0, 4])
   \<and> ProcessData (Rectangle [0, 0, 2, 0, 2, 2, 0, 2]) (Rectangle [1, 1, 3, 1, 3, 3, 1, 3])
     = (none, 1, (Rectangle [0, 0, 2, 0, 2, 2, 0, 2])\<lparr>mIsectEdge := [1, 2]\<rparr>,
        (Rectangle [1, 1, 3, 1, 3, 3, 1, 3])\<lparr>mIsectEdge := [0, 3]\<rparr>)
   \<and> Analyzer (\<lambda>a. NaN) (\<lambda>a b. NaN)
        (Rectangle [0, 0, 2, 0, 2, 2, 0, 2]) (Rectangle [1, 1, 3, 1, 3, 3, 1, 3])
     = (''Rectangle A and Rectangle B intersect. The points of intersection are: '',
        [(Fin 2, Fin 1), (Fin 1, Fin 2)])"
proof -
  let ?A = "Rectangle [0, 0, 4, 0, 4, 4, 0, 4]"
  let ?B = "Rectangle [1, 1, 2, 1, 2, 2, 1, 2]"
  let ?C = "Rectangle [0, 0, 2, 0, 2, 2, 0, 2]"
  let ?D = "Rectangle [1, 1, 3, 1, 3, 3, 1, 3]"
  have ab: "Analyze ?A ?B = (contain, ?A)" by code_simp
  have ba: "Analyze ?B ?A = (none, ?B\<lparr>mIsectEdge := [0, 1, 2, 3]\<rparr>)" by code_simp
  have cd: "Analyze ?C ?D = (none, ?C\<lparr>mIsectEdge := [1, 2]\<rparr>)" by code_simp
  have dc: "Analyze ?D ?C = (none, ?D\<lparr>mIsectEdge := [0, 3]\<rparr>)" by code_simp
  have pts: "FindIntersection (\<lambda>a. NaN) (\<lambda>a b. NaN) (?C\<lparr>mIsectEdge := [1, 2]\<rparr>)
      (?D\<lparr>mIsectEdge := [0, 3]\<rparr>) = [(Fin 2, Fin 1), (Fin 1, Fin 2)]" by code_simp
  have nm: "mName ?C = ''Rectangle''" "mName ?D = ''Rectangle''" by (simp_all add: Rectangle_def)
  have p1: "ProcessData ?A ?B = (contain, 0, ?A, ?B)"
    using ProcessData_order [of ?A ?B] unfolding ab by simp
  have p2: "ProcessData ?B ?A = (contain, 1, ?B\<lparr>mIsectEdge := [0, 1, 2, 3]\<rparr>, ?A)"
    using ProcessData_order [of ?B ?A] unfolding ab ba by simp
  have p3: "ProcessData ?C ?D = (none, 1, ?C\<lparr>mIsectEdge := [1, 2]\<rparr>, ?D\<lparr>mIsectEdge := [0, 3]\<rparr>)"
    using ProcessData_order [of ?C ?D] unfolding cd dc by simp
  have p4: "Analyzer (\<lambda>a. NaN) (\<lambda>a b. NaN) ?C ?D
      = (''Rectangle A and Rectangle B intersect. The points of intersection are: '',
         [(Fin 2, Fin 1), (Fin 1, Fin 2)])"
    using ProcessData_order [of ?C ?D "\<lambda>a. NaN" "\<lambda>a b. NaN"]
    unfolding p3 cd dc fst_conv snd_conv pts nm by simp
  from p1 p2 p3 p4 show ?thesis by blast
qed

text \<open>
  Claim C10. \<open>Analyze\<close> leaves the side count, the coordinates and the name of the
  subject as they were and extends its candidate edges at the end; the other shape is
  passed by \<open>const\<close> reference and is not returned by the model. \<open>FindIntersection\<close> takes
  both shapes by \<open>const\<close> reference: its model returns the points written and no shape.
\<close>

theorem Analyze_frame:
  "mNumSides (snd (Analyze A B)) = mNumSides A \<and>
   mPoints (snd (Analyze A B)) = mPoints A \<and>
   mName (snd (Analyze A B)) = mName A \<and>
   prefix (mIsectEdge A) (mIsectEdge (snd (Analyze A B)))"
  by (simp add: Analyze_frame_fields)

theorem Analyze_frame_witness:
  "mNumSides (snd (Analyze (Rectangle [0, 0, 2, 0, 2, 2, 0, 2]) (Rectangle [1, 1, 3, 1, 3, 3, 1, 3]))) = 4
   \<and> mPoints (snd (Analyze (Rectangle [0, 0, 2, 0, 2, 2, 0, 2]) (Rectangle [1, 1, 3, 1, 3, 3, 1, 3])))
       = [0, 0, 2, 0, 2, 2, 0, 2]
   \<and> mName (snd (Analyze (Rectangle [0, 0, 2, 0, 2, 2, 0, 2]) (Rectangle [1, 1, 3, 1, 3, 3, 1, 3])))
       = ''Rectangle''"
  using Analyze_frame [of "Rectangle [0, 0, 2, 0, 2, 2, 0, 2]" "Rectangle [1, 1, 3, 1, 3, 3, 1, 3]"]
  by (simp add: Rectangle_def)

section \<open>FindIntersection: the claims\<close>

text \<open>For a finite point, \<open>LiesOnEdge\<close> is the bounding box of the edge, borders included.\<close>

lemma LiesOnEdge_bounding_box:
  "LiesOnEdge S (Fin x) (Fin y) i \<longleftrightarrow>
     (case edge_points S i of (x1, y1, x2, y2) \<Rightarrow>
        min x1 x2 \<le> x \<and> x \<le> max x1 x2 \<and> min y1 y2 \<le> y \<and> y \<le> max y1 y2)"
  by (auto simp add: LiesOnEdge_def split: prod.splits)

lemma emit_on_edges:
  "q \<in> set (emit A a B b p) \<Longrightarrow>
     q = p \<and> LiesOnEdge A (fst q) (snd q) a \<and> LiesOnEdge B (fst q) (snd q) b"
  by (simp add: emit_def split: if_splits)

lemma pair_step_on_edges:
  assumes "q \<in> set (snd (pair_step A B a sA iA b g p))"
  shows "LiesOnEdge A (fst q) (snd q) a \<and> LiesOnEdge B (fst q) (snd q) b"
proof -
  obtain ix iy sB iB
    where bl: "B_line (edge_points B b) g (reset_point (edge_points A a) p) = (ix, iy, sB, iB)"
    by (cases "B_line (edge_points B b) g (reset_point (edge_points A a) p)")
  from assms have "q \<in> set (emit A a B b (ix, iy))
      \<or> q \<in> set (emit A a B b (solve (edge_points A a) (edge_points B b) sA iA sB iB (ix, iy)))"
    by (simp add: pair_step_def Let_def bl split: if_splits)
  then show ?thesis by (blast dest: emit_on_edges)
qed

lemma inner_loop_on_edges:
  "q \<in> set (inner_loop A B a sA iA g bs p) \<Longrightarrow>
     \<exists>b\<in>set bs. LiesOnEdge A (fst q) (snd q) a \<and> LiesOnEdge B (fst q) (snd q) b"
proof (induction bs arbitrary: p)
  case Nil
  then show ?case by simp
next
  case (Cons b bs)
  obtain p' out where st: "pair_step A B a sA iA b (g b) p = (p', out)"
    by (cases "pair_step A B a sA iA b (g b) p")
  from Cons.prems have "q \<in> set out \<or> q \<in> set (inner_loop A B a sA iA g bs p')"
    by (simp add: st)
  then show ?case
  proof
    assume "q \<in> set out"
    then have "q \<in> set (snd (pair_step A B a sA iA b (g b) p))" by (simp add: st)
    from pair_step_on_edges [OF this] show ?thesis by simp
  next
    assume "q \<in> set (inner_loop A B a sA iA g bs p')"
    from Cons.IH [OF this] show ?thesis by auto
  qed
qed

lemma outer_loop_on_edges:
  "q \<in> set (outer_loop gA gB A B as) \<Longrightarrow>
     \<exists>a\<in>set as. \<exists>b\<in>set (mIsectEdge B).
       LiesOnEdge A (fst q) (snd q) a \<and> LiesOnEdge B (fst q) (snd q) b"
proof (induction as)
  case Nil
  then show ?case by simp
next
  case (Cons a as)
  obtain sA iA ix iy where al: "A_line A a (gA a) = (sA, iA, ix, iy)"
    by (cases "A_line A a (gA a)")
  from Cons.prems
  have "q \<in> set (inner_loop A B a sA iA (gB a) (mIsectEdge B) (ix, iy))
      \<or> q \<in> set (outer_loop gA gB A B as)"
    by (simp add: al)
  then show ?case
  proof
    assume "q \<in> set (inner_loop A B a sA iA (gB a) (mIsectEdge B) (ix, iy))"
    from inner_loop_on_edges [OF this] show ?thesis by auto
  next
    assume "q \<in> set (outer_loop gA gB A B as)"
    from Cons.IH [OF this] show ?thesis by auto
  qed
qed

text \<open>
  Claim C7. Every point written for a pair of candidate edges lies on both edges by
  \<open>LiesOnEdge\<close>, whatever the state the iteration starts in; so every point that
  \<open>FindIntersection\<close> writes lies on a candidate edge of \<open>A\<close> and on one of \<open>B\<close>.
\<close>

theorem emitted_points_lie_on_both_edges:
  "(\<forall>q\<in>set (snd (pair_step A B a sA iA b g p)).
      LiesOnEdge A (fst q) (snd q) a \<and> LiesOnEdge B (fst q) (snd q) b)
   \<and> (\<forall>q\<in>set (FindIntersection gA gB A B).
        \<exists>a\<in>set (mIsectEdge A). \<exists>b\<in>set (mIsectEdge B).
          LiesOnEdge A (fst q) (snd q) a \<and> LiesOnEdge B (fst q) (snd q) b)"
  using pair_step_on_edges [of _ A B a sA iA b g p] outer_loop_on_edges [of _ gA gB A B]
  by (auto simp add: FindIntersection_def)

theorem emitted_points_lie_on_both_edges_witness:
  "(Fin 2, Fin 1) \<in> set (FindIntersection (\<lambda>a. NaN) (\<lambda>a b. NaN)
       ((Rectangle [0, 0, 2, 0, 2, 2, 0, 2])\<lparr>mIsectEdge := [1, 2]\<rparr>)
       ((Rectangle [1, 1, 3, 1, 3, 3, 1, 3])\<lparr>mIsectEdge := [0, 3]\<rparr>))
   \<and> (\<exists>a\<in>set [1, 2]. \<exists>b\<in>set [0, 3].
         LiesOnEdge ((Rectangle [0, 0, 2, 0, 2, 2, 0, 2])\<lparr>mIsectEdge := [1, 2]\<rparr>) (Fin 2) (Fin 1) a
       \<and> LiesOnEdge ((Rectangle [1, 1, 3, 1, 3, 3, 1, 3])\<lparr>mIsectEdge := [0, 3]\<rparr>) (Fin 2) (Fin 1) b)"
proof -
  let ?A = "(Rectangle [0, 0, 2, 0, 2, 2, 0, 2])\<lparr>mIsectEdge := [1, 2]\<rparr>"
  let ?B = "(Rectangle [1, 1, 3, 1, 3, 3, 1, 3])\<lparr>mIsectEdge := [0, 3]\<rparr>"
  have m: "(Fin 2, Fin 1) \<in> set (FindIntersection (\<lambda>a. NaN) (\<lambda>a b. NaN) ?A ?B)"
    by code_simp
  have ea: "mIsectEdge ?A = [1, 2]" and eb: "mIsectEdge ?B = [0, 3]"
    by (simp_all add: Rectangle_def)
  from emitted_points_lie_on_both_edges [of ?A ?B 0 NaN NaN 0 NaN "(NaN, NaN)" "\<lambda>a. NaN" "\<lambda>a b. NaN"] m
  have "\<exists>a\<in>set (mIsectEdge ?A). \<exists>b\<in>set (mIsectEdge ?B).
      LiesOnEdge ?A (Fin 2) (Fin 1) a \<and> LiesOnEdge ?B (Fin 2) (Fin 1) b"
    by fastforce
  with m show ?thesis unfolding ea eb by blast
qed

text \<open>
  Claim C6, as the code has it. On the general path, which is every iteration that does
  not take the branch of lines 312 to 325, a point that is the second end point of either
  edge is never written. On the fast path no end point is tested: the crossing point is
  written whenever it lies on both edges.
\<close>

theorem second_endpoint_skipped_off_fast_path:
  "(fast_path A B a b g p \<longrightarrow>
      snd (pair_step A B a sA iA b g p) = emit A a B b (fst (pair_step A B a sA iA b g p)))
   \<and> (\<not> fast_path A B a b g p \<longrightarrow>
        (\<forall>q\<in>set (snd (pair_step A B a sA iA b g p)).
           \<not> second_endpoint (edge_points A a) q \<and> \<not> second_endpoint (edge_points B b) q))"
proof -
  obtain ix iy sB iB
    where bl: "B_line (edge_points B b) g (reset_point (edge_points A a) p) = (ix, iy, sB, iB)"
    by (cases "B_line (edge_points B b) g (reset_point (edge_points A a) p)")
  have fast: "fast_path A B a b g p \<Longrightarrow>
      snd (pair_step A B a sA iA b g p) = emit A a B b (fst (pair_step A B a sA iA b g p))"
    by (simp add: fast_path_def pair_step_def Let_def bl)
  have slow: "\<not> second_endpoint (edge_points A a) q \<and> \<not> second_endpoint (edge_points B b) q"
    if nf: "\<not> fast_path A B a b g p" and q: "q \<in> set (snd (pair_step A B a sA iA b g p))" for q
  proof -
    let ?p2 = "solve (edge_points A a) (edge_points B b) sA iA sB iB (ix, iy)"
    from nf q have np: "\<not> axis_parallel (edge_points A a) (edge_points B b)"
      by (auto simp add: pair_step_def Let_def)
    with nf have "\<not> perpendicular (edge_points A a) (edge_points B b) (ix, iy)"
      by (simp add: fast_path_def Let_def bl)
    with np q have "\<not> (second_endpoint (edge_points A a) ?p2 \<or> second_endpoint (edge_points B b) ?p2)"
      and "q \<in> set (emit A a B b ?p2)"
      by (auto simp add: pair_step_def Let_def bl split: if_splits)
    then show ?thesis by (auto dest: emit_on_edges)
  qed
  from fast slow show ?thesis by blast
qed

theorem second_endpoint_skipped_off_fast_path_witness:
  "fast_path (Rectangle [0, 0, 2, 0, 2, 2, 0, 2]) (Rectangle [1, 2, 3, 2, 3, 4, 1, 4]) 1 0 NaN (Fin 2, NaN)
   \<and> snd (pair_step (Rectangle [0, 0, 2, 0, 2, 2, 0, 2]) (Rectangle [1, 2, 3, 2, 3, 4, 1, 4])
          1 (Fin INV) NaN 0 NaN (Fin 2, NaN)) = [(Fin 2, Fin 2)]
   \<and> \<not> fast_path (Rectangle [0, 0, 1, 1, 0, 2, - 1, 1]) (Rectangle [0, 1, 1, 2, 0, 3, - 1, 2])
          1 0 NaN (NaN, NaN)
   \<and> (Fin (1 / 2), Fin (3 / 2)) \<in> set (snd (pair_step (Rectangle [0, 0, 1, 1, 0, 2, - 1, 1])
          (Rectangle [0, 1, 1, 2, 0, 3, - 1, 2]) 1 (Fin (- 1)) (Fin 2) 0 NaN (NaN, NaN)))
   \<and> \<not> second_endpoint (edge_points (Rectangle [0, 0, 1, 1, 0, 2, - 1, 1]) 1) (Fin (1 / 2), Fin (3 / 2))
   \<and> \<not> second_endpoint (edge_points (Rectangle [0, 1, 1, 2, 0, 3, - 1, 2]) 0) (Fin (1 / 2), Fin (3 / 2))"
proof -
  let ?A = "Rectangle [0, 0, 2, 0, 2, 2, 0, 2]"
  let ?B = "Rectangle [1, 2, 3, 2, 3, 4, 1, 4]"
  let ?R = "Rectangle [0, 0, 1, 1, 0, 2, - 1, 1]"
  let ?S = "Rectangle [0, 1, 1, 2, 0, 3, - 1, 2]"
  have f: "fast_path ?A ?B 1 0 NaN (Fin 2, NaN)" by code_simp
  have e: "emit ?A 1 ?B 0 (fst (pair_step ?A ?B 1 (Fin INV) NaN 0 NaN (Fin 2, NaN)))
      = [(Fin 2, Fin 2)]" by code_simp
  have nf: "\<not> fast_path ?R ?S 1 0 NaN (NaN, NaN)" by code_simp
  have m: "(Fin (1 / 2), Fin (3 / 2))
      \<in> set (snd (pair_step ?R ?S 1 (Fin (- 1)) (Fin 2) 0 NaN (NaN, NaN)))" by code_simp
  have r1: "snd (pair_step ?A ?B 1 (Fin INV) NaN 0 NaN (Fin 2, NaN)) = [(Fin 2, Fin 2)]"
    using second_endpoint_skipped_off_fast_path [of ?A ?B 1 0 NaN "(Fin 2, NaN)" "Fin INV" NaN] f e
    by simp
  have r2: "\<not> second_endpoint (edge_points ?R 1) (Fin (1 / 2), Fin (3 / 2))
      \<and> \<not> second_endpoint (edge_points ?S 0) (Fin (1 / 2), Fin (3 / 2))"
    using second_endpoint_skipped_off_fast_path [of ?R ?S 1 0 NaN "(NaN, NaN)" "Fin (- 1)" "Fin 2"] nf m
    by blast
  from f r1 nf m r2 show ?thesis by blast
qed

text \<open>
  Claim C6, as it is stated, fails. The rectangle with corners \<open>(0, 0)\<close> and \<open>(2, 2)\<close> and
  the rectangle with corners \<open>(1, 2)\<close> and \<open>(3, 4)\<close> are classified as intersecting. The
  vertical edge 1 of the first, from \<open>(2, 0)\<close> to \<open>(2, 2)\<close>, and the horizontal edge 0 of
  the second take the fast path, which writes \<open>(2, 2)\<close>: the second end point of edge 1.
\<close>

theorem fast_path_emits_second_endpoint:
  "ProcessData (Rectangle [0, 0, 2, 0, 2, 2, 0, 2]) (Rectangle [1, 2, 3, 2, 3, 4, 1, 4])
     = (none, 1, (Rectangle [0, 0, 2, 0, 2, 2, 0, 2])\<lparr>mIsectEdge := [1, 2]\<rparr>,
        (Rectangle [1, 2, 3, 2, 3, 4, 1, 4])\<lparr>mIsectEdge := [0, 3]\<rparr>)
   \<and> FindIntersection (\<lambda>a. NaN) (\<lambda>a b. NaN)
       ((Rectangle [0, 0, 2, 0, 2, 2, 0, 2])\<lparr>mIsectEdge := [1, 2]\<rparr>)
       ((Rectangle [1, 2, 3, 2, 3, 4, 1, 4])\<lparr>mIsectEdge := [0, 3]\<rparr>)
     = [(Fin 2, Fin 2), (Fin 1, Fin 2)]
   \<and> edge_points (Rectangle [0, 0, 2, 0, 2, 2, 0, 2]) 1 = (2, 0, 2, 2)
   \<and> second_endpoint (edge_points (Rectangle [0, 0, 2, 0, 2, 2, 0, 2]) 1) (Fin 2, Fin 2)"
  by code_simp

text \<open>
  Parallel edges. Two edges parallel to the same axis are skipped at line 292. For two
  edges at an angle to the axes, line 350 divides by the difference of the slopes that the
  solver holds. If these are equal, the difference is zero (or NaN, for infinite slopes),
  the quotient is an infinity or NaN, no comparison of \<open>LiesOnEdge\<close> holds for it, and
  nothing is written. This uses of the arithmetic only that \<open>s - s\<close> is zero and that a
  quotient by zero is not finite. It needs that the sentinel \<open>INV\<close>, to which the point is
  reset, is not a coordinate of a first end point; otherwise the tests of lines 312 to 344
  take the reset point for the coordinate.
\<close>

lemma LiesOnEdge_finite: "LiesOnEdge S x y i \<Longrightarrow> \<exists>r. x = Fin r"
  by (cases x) (auto simp add: LiesOnEdge_def split: prod.splits)

lemma emit_not_finite: "\<forall>r. x \<noteq> Fin r \<Longrightarrow> emit A a B b (x, y) = []"
  using LiesOnEdge_finite [of A x y a] by (auto simp add: emit_def)

lemma f_sub_equal: "f_eq s t \<Longrightarrow> f_sub s t = Fin 0 \<or> f_sub s t = NaN"
  by (cases s; cases t) (simp_all add: f_sub_def)

lemma f_div_by_zero_not_finite: "d = Fin 0 \<or> d = NaN \<Longrightarrow> f_div x d \<noteq> Fin r"
  by (cases x) (auto split: if_splits)

lemma axis_parallel_emits_nothing:
  "axis_parallel (edge_points A a) (edge_points B b) \<Longrightarrow> snd (pair_step A B a sA iA b g p) = []"
  by (simp add: pair_step_def Let_def)

lemma equal_slopes_emit_nothing:
  assumes eA: "edge_points A a = (ax1, ay1, ax2, ay2)"
    and eB: "edge_points B b = (bx1, by1, bx2, by2)"
    and sloped: "ax1 \<noteq> ax2" "ay1 \<noteq> ay2" "bx1 \<noteq> bx2" "by1 \<noteq> by2"
    and free: "INV \<notin> {ax1, ay1, bx1, by1}"
    and bl: "B_line (edge_points B b) g (Fin INV, Fin INV) = (ix, iy, sB, iB)"
    and slopes: "f_eq sA sB"
  shows "snd (pair_step A B a sA iA b g p) = []"
proof -
  have reset: "reset_point (edge_points A a) p = (Fin INV, Fin INV)"
    using sloped by (simp add: reset_point_def eA)
  have bl': "B_line (edge_points B b) g (Fin INV, Fin INV) = (Fin INV, Fin INV, sB, iB)"
    using bl sloped by (auto simp add: B_line_def eB Let_def)
  have nap: "\<not> axis_parallel (edge_points A a) (edge_points B b)"
    using sloped by (simp add: axis_parallel_def eA eB)
  have np: "\<not> perpendicular (edge_points A a) (edge_points B b) (Fin INV, Fin INV)"
    using free by (auto simp add: perpendicular_def eA eB)
  define x where "x = f_div (f_sub iB iA) (f_sub sA sB)"
  have sol: "solve (edge_points A a) (edge_points B b) sA iA sB iB (Fin INV, Fin INV)
      = (x, f_add (f_mul sA x) iA)"
    using free by (auto simp add: solve_def eA eB Let_def x_def)
  have nf: "\<forall>r. x \<noteq> Fin r"
    using f_div_by_zero_not_finite [OF f_sub_equal [OF slopes]] by (simp add: x_def)
  have ne: "\<not> second_endpoint e (x, y)" for e y
    using nf by (cases e; cases x) (simp_all add: second_endpoint_def)
  show ?thesis
    by (simp add: pair_step_def Let_def reset bl' nap np sol ne emit_not_finite [OF nf])
qed

text \<open>
  Claim C8 fails on the code when a first end point has the coordinate 3735928576, the
  \<open>float\<close> that the sentinel \<open>0xdeadbeef\<close> becomes. The two rectangles below pass
  \<open>SanityCheck\<close> and are classified as intersecting. Edge 2 of the first and edge 0 of
  the second are parallel, both of slope 1, and the iteration for this pair writes the
  point \<open>(3735928576, 256)\<close>; it is the only point that the program writes.
\<close>

theorem parallel_edges_emit_point:
  "SanityCheck (Rectangle [3735928576, 0, 3735928832, 256, 3735928576, 512, 3735928320, 256])
   \<and> SanityCheck (Rectangle [3735928576, 256, 3735928832, 512, 3735928576, 768, 3735928320, 512])
   \<and> ProcessData (Rectangle [3735928576, 0, 3735928832, 256, 3735928576, 512, 3735928320, 256])
        (Rectangle [3735928576, 256, 3735928832, 512, 3735928576, 768, 3735928320, 512])
      = (none, 1,
         (Rectangle [3735928576, 0, 3735928832, 256, 3735928576, 512, 3735928320, 256])
           \<lparr>mIsectEdge := [1, 2]\<rparr>,
         (Rectangle [3735928576, 256, 3735928832, 512, 3735928576, 768, 3735928320, 512])
           \<lparr>mIsectEdge := [0, 3]\<rparr>)
   \<and> parallel_edges
        (edge_points (Rectangle [3735928576, 0, 3735928832, 256, 3735928576, 512, 3735928320, 256]) 2)
        (edge_points (Rectangle [3735928576, 256, 3735928832, 512, 3735928576, 768, 3735928320, 512]) 0)
   \<and> A_line (Rectangle [3735928576, 0, 3735928832, 256, 3735928576, 512, 3735928320, 256]) 2 NaN
      = (Fin 1, Fin (- 3735928064), NaN, NaN)
   \<and> snd (pair_step
        (Rectangle [3735928576, 0, 3735928832, 256, 3735928576, 512, 3735928320, 256])
        (Rectangle [3735928576, 256, 3735928832, 512, 3735928576, 768, 3735928320, 512])
        2 (Fin 1) (Fin (- 3735928064)) 0 NaN (NaN, NaN))
      = [(Fin 3735928576, Fin 256)]
   \<and> snd (Analyzer (\<lambda>a. NaN) (\<lambda>a b. NaN)
        (Rectangle [3735928576, 0, 3735928832, 256, 3735928576, 512, 3735928320, 256])
        (Rectangle [3735928576, 256, 3735928832, 512, 3735928576, 768, 3735928320, 512]))
      = [(Fin 3735928576, Fin 256)]"
  by code_simp

section \<open>Rectangle: the claims\<close>

text \<open>
  For a quadrilateral with every edge vertical or horizontal, where \<open>Slope\<close> divides
  nothing, \<open>SanityCheck\<close> is the validation that the specification words.
\<close>

lemma Slope_axis:
  assumes "mNumSides R = 4"
  shows "edge_direction R i = Vertical \<Longrightarrow> Slope R i = INV"
    and "edge_direction R i = Horizontal \<Longrightarrow> Slope R i = 0"
  using assms
  by (auto simp add: Slope_def edge_direction_def edge_points_def Let_def split: if_splits)

lemma SanityCheck_unfold:
  "SanityCheck R =
     (Slope R 0 = Slope R 2 \<and> Slope R 1 = Slope R 3 \<and>
      (if Slope R 0 = 0 \<or> Slope R 0 = INV
       then (if Slope R 0 = 0 then Slope R 1 = INV else Slope R 1 = 0)
       else if Slope R 1 = 0 \<or> Slope R 1 = INV then False
       else Slope R 0 * Slope R 1 = - 1))"
proof -
  have "[0..<4] = [0, 1, 2, 3::nat]" by (simp add: upt_conv_Cons)
  then show ?thesis by (simp add: SanityCheck_def Let_def)
qed

lemma spec_rectangle_unfold:
  "spec_rectangle R \<longleftrightarrow>
     edge_direction R 0 = edge_direction R 2 \<and> edge_direction R 1 = edge_direction R 3 \<and>
     perpendicular_directions (edge_direction R 0) (edge_direction R 1) \<and>
     perpendicular_directions (edge_direction R 1) (edge_direction R 2) \<and>
     perpendicular_directions (edge_direction R 2) (edge_direction R 3) \<and>
     perpendicular_directions (edge_direction R 3) (edge_direction R 0)"
proof -
  have "[0..<4] = [0, 1, 2, 3::nat]" by (simp add: upt_conv_Cons)
  then show ?thesis by (simp add: spec_rectangle_def numeral_2_eq_2 [symmetric])
qed

lemma SanityCheck_axis_aligned:
  assumes four: "mNumSides R = 4"
    and axes: "\<forall>i<4. edge_direction R i = Vertical \<or> edge_direction R i = Horizontal"
  shows "SanityCheck R = spec_rectangle R"
proof -
  have nz: "INV \<noteq> 0" by (simp add: INV_def)
  from axes have d: "edge_direction R 0 = Vertical \<or> edge_direction R 0 = Horizontal"
    "edge_direction R 1 = Vertical \<or> edge_direction R 1 = Horizontal"
    "edge_direction R 2 = Vertical \<or> edge_direction R 2 = Horizontal"
    "edge_direction R 3 = Vertical \<or> edge_direction R 3 = Horizontal"
    by simp_all
  note S = Slope_axis [OF four]
  from d show ?thesis
    by (elim disjE) (simp_all add: SanityCheck_unfold spec_rectangle_unfold S nz)
qed

lemma SanityCheck_examples:
  "\<not> SanityCheck (Rectangle [0, 0, 1, 0, 1, 2, 0, 1])"
  "SanityCheck (Rectangle [0, 0, 2, 0, 2, 1, 0, 1])"
  by code_simp+

text \<open>
  Claim C9 fails on the code for the quadrilateral \<open>(0, 0) (0, 3735928576)
  (2, 3735928576) (1, 0)\<close>. Its edge 0 is vertical and the opposite edge 2 has the slope
  3735928576, the \<open>float\<close> of the sentinel: \<open>Slope\<close> returns the same number for both, and
  \<open>SanityCheck\<close> accepts a trapezoid, which the validation of the specification rejects.
\<close>

theorem SanityCheck_accepts_trapezoid:
  "SanityCheck (Rectangle [0, 0, 0, 3735928576, 2, 3735928576, 1, 0])
   \<and> \<not> spec_rectangle (Rectangle [0, 0, 0, 3735928576, 2, 3735928576, 1, 0])
   \<and> edge_direction (Rectangle [0, 0, 0, 3735928576, 2, 3735928576, 1, 0]) 0 = Vertical
   \<and> edge_direction (Rectangle [0, 0, 0, 3735928576, 2, 3735928576, 1, 0]) 2 = Sloped 3735928576"
  by code_simp

end
